theory Spec2Isabelle
  imports Main "HOL-Library.Word"
begin

section \<open>The database entry point of the PostgreSQL connector (PGMain.cpp)\<close>

text \<open>
  The development embeds the function \<^verbatim>\<open>call\<close> of
  \<^verbatim>\<open>src/ports/postgres/dbconnector/PGMain.cpp\<close>: the C++ entry point
  that every exported SQL function funnels through. The function runs a native
  function \<open>f\<close> inside two nested \<^verbatim>\<open>try\<close> statements, turns every
  C++ exception into an error code and a message held in a local buffer of 2048
  bytes, and hands both to the host's \<^verbatim>\<open>ereport\<close>.
\<close>

subsection \<open>C strings and the buffer operations\<close>

definition NUL :: char where
  "NUL = CHR 0x00"

text \<open>
  A \<^verbatim>\<open>const char *\<close> is modelled by the bytes found from the address on;
  the string it denotes ends before the first NUL byte.
\<close>

definition c_str :: "string \<Rightarrow> string" where
  "c_str p = takeWhile (\<lambda>c. c \<noteq> NUL) p"

text \<open>
  \<^verbatim>\<open>strncpy(dst, src, n)\<close> writes exactly \<open>n\<close> bytes at the start of
  \<open>dst\<close>: the bytes of the string \<open>src\<close>, cut after \<open>n\<close>, and NUL bytes up to
  \<open>n\<close> when the string is shorter. The bytes of \<open>dst\<close> from \<open>n\<close> on are kept.
  When \<open>dst\<close> has fewer than \<open>n\<close> bytes the result is longer than \<open>dst\<close>:
  the write ran past the end of the array.
\<close>

definition strncpy :: "string \<Rightarrow> string \<Rightarrow> nat \<Rightarrow> string" where
  "strncpy dst src n = take n (c_str src @ replicate n NUL) @ drop n dst"

text \<open>\<^verbatim>\<open>char msg[2048]\<close>: the value of \<^verbatim>\<open>sizeof(msg)\<close>.\<close>

definition sizeof_msg :: nat where
  "sizeof_msg = 2048"

subsection \<open>C++ exceptions\<close>

text \<open>
  The handlers of \<^verbatim>\<open>call\<close> tell three classes of thrown objects apart:
  \<^verbatim>\<open>std::bad_alloc\<close> (and classes derived from it), every other class
  derived from \<^verbatim>\<open>std::exception\<close>, and objects that are no
  \<^verbatim>\<open>std::exception\<close> at all. The first two carry the text that
  \<^verbatim>\<open>what()\<close> returns.
\<close>

datatype cxx_exception =
    bad_alloc string
  | std_exception string
  | non_std

text \<open>The text of an exception, where it has one.\<close>

fun what :: "cxx_exception \<Rightarrow> string option" where
  "what (bad_alloc w) = Some w"
| "what (std_exception w) = Some w"
| "what non_std = None"

subsection \<open>The host and the classes of the connector that the function uses\<close>

text \<open>
  Modelled from the spec: the error classification codes handed to the host,
  \<^verbatim>\<open>ERRCODE_OUT_OF_MEMORY\<close> (OutOfMemory) and
  \<^verbatim>\<open>ERRCODE_INVALID_PARAMETER_VALUE\<close> (InvalidArgument). They are macros
  of the host's headers; the function produces no other code.
\<close>

datatype sqlerrcode = ERRCODE_OUT_OF_MEMORY | ERRCODE_INVALID_PARAMETER_VALUE

text \<open>
  Modelled from the spec: the host's error channel, \<^verbatim>\<open>ereport\<close>, takes a
  severity, a classification code and a formatted message. At severity
  \<^verbatim>\<open>ERROR\<close> it leaves by a non-local transfer of control (a
  \<^verbatim>\<open>longjmp\<close>, as the comment in \<^verbatim>\<open>call\<close> says) and never
  returns; below that severity it returns to its caller.
\<close>

datatype elevel = WARNING | ERROR

type_synonym ErrorData = "elevel \<times> sqlerrcode \<times> string"

datatype host_call = Longjmp "ErrorData list" | Returns "ErrorData list"

definition ereport :: "elevel \<Rightarrow> sqlerrcode \<Rightarrow> string \<Rightarrow> host_call" where
  "ereport lev code m =
     (if lev = ERROR then Longjmp [(lev, code, m)] else Returns [(lev, code, m)])"

text \<open>
  \<^verbatim>\<open>errmsg("Function \"%s\": %s", name, msg)\<close>: both arguments are read as
  C strings.
\<close>

definition errmsg :: "string \<Rightarrow> string \<Rightarrow> string" where
  "errmsg name m =
     ''Function '' @ [CHR 0x22] @ c_str name @ [CHR 0x22] @ '': '' @ c_str m"

text \<open>
  The host's per-call state \<^verbatim>\<open>fcinfo\<close>: the identifier of the invoked
  function (\<^verbatim>\<open>fcinfo->flinfo->fn_oid\<close>) and the flag by which a call
  says that its result is null. \<^verbatim>\<open>Datum\<close> is the host's machine word.
\<close>

type_synonym Datum = "64 word"

record FunctionCallInfoData =
  fn_oid :: nat
  isnull :: bool

text \<open>\<^verbatim>\<open>PG_RETURN_NULL()\<close> sets the flag and returns the zero word.\<close>

definition PG_RETURN_NULL :: "FunctionCallInfoData \<Rightarrow> Datum \<times> FunctionCallInfoData" where
  "PG_RETURN_NULL fcinfo = (0, fcinfo\<lparr>isnull := True\<rparr>)"

text \<open>
  Modelled from the spec: the Invocation Context (class \<^verbatim>\<open>PGInterface\<close>,
  not in this file). The function reads only its diagnostic slot,
  \<^verbatim>\<open>lastError()\<close>, a pointer that is null (\<open>None\<close>) while the slot is
  empty.
\<close>

record PGInterface =
  lastError :: "string option"

text \<open>
  Modelled from the spec: the Polymorphic Value (class \<^verbatim>\<open>AnyType\<close>, not in
  this file) is null or present. A present value built from a shared pointer
  carries the pointer's deleter: \<^verbatim>\<open>NoDeleter\<close> for a value that is only
  referenced, the default deleter for one that the container owns. When the last
  container of a value goes away, an owned value is freed and a referenced one is
  left alone.
\<close>

datatype deleter = NoDeleter | DefaultDelete

datatype 'a AbstractTypeSPtr = AbstractTypeSPtr 'a deleter

datatype 'a AnyType = Null | AnyType "'a AbstractTypeSPtr"

fun isNull :: "'a AnyType \<Rightarrow> bool" where
  "isNull Null = True"
| "isNull (AnyType p) = False"

fun destroy :: "'a AnyType \<Rightarrow> 'a list \<Rightarrow> 'a list" where
  "destroy Null live = live"
| "destroy (AnyType (AbstractTypeSPtr p NoDeleter)) live = live"
| "destroy (AnyType (AbstractTypeSPtr p DefaultDelete)) live = removeAll p live"

text \<open>
  A native function takes the context by reference and the argument value; it
  returns a value or throws, and it may have written the context's diagnostic
  slot either way.
\<close>

type_synonym 'a MADFunction =
  "PGInterface \<Rightarrow> 'a AnyType \<Rightarrow> (cxx_exception + 'a AnyType) \<times> PGInterface"

text \<open>
  What \<^verbatim>\<open>call\<close> uses and this file does not define: the constructors of
  \<^verbatim>\<open>PGInterface\<close> and \<^verbatim>\<open>PGType<FunctionCallInfo>\<close> and the
  conversion \<^verbatim>\<open>PGToDatumConverter(fcinfo).convertToDatum\<close>, each of which
  may throw; the host's \<^verbatim>\<open>format_procedure\<close>; the macro
  \<^verbatim>\<open>PACKAGE_NAME\<close>.
\<close>

record 'a connector =
  PGInterface_ctor :: "FunctionCallInfoData \<Rightarrow> cxx_exception + PGInterface"
  PGType_ctor :: "FunctionCallInfoData \<Rightarrow> cxx_exception + 'a"
  convertToDatum :: "FunctionCallInfoData \<Rightarrow> 'a AnyType \<Rightarrow> cxx_exception + Datum"
  format_procedure :: "nat \<Rightarrow> string"
  PACKAGE_NAME :: string

subsection \<open>The function \<^verbatim>\<open>call\<close>\<close>

text \<open>The plain-data locals of \<^verbatim>\<open>call\<close>, uninitialised at entry.\<close>

record locals =
  sqlerrcode :: sqlerrcode
  msg :: string

text \<open>
  A \<^verbatim>\<open>try\<close> statement of \<^verbatim>\<open>call\<close> completes by a
  \<^verbatim>\<open>return\<close> or, after a handler, by falling through to the statement
  that follows it.
\<close>

datatype completion = Return Datum FunctionCallInfoData | Next locals

text \<open>The literal of the \<^verbatim>\<open>bad_alloc\<close> handler.\<close>

definition bad_alloc_text :: "string \<Rightarrow> string" where
  "bad_alloc_text package_name =
     ''Memory allocation failed. Typically, this indicates that '' @ package_name @
     '' limits the available memory to less than what is needed for this '' @
     ''input.''"

text \<open>
  Lines 59 to 71, the block of the inner \<^verbatim>\<open>try\<close>: it returns from
  \<^verbatim>\<open>call\<close> or throws. The context is returned as the native function
  left it.
\<close>

definition inner_block ::
  "'a connector \<Rightarrow> 'a MADFunction \<Rightarrow> PGInterface \<Rightarrow> FunctionCallInfoData \<Rightarrow>
     (cxx_exception + Datum \<times> FunctionCallInfoData) \<times> PGInterface" where
  "inner_block env f db fcinfo =
     (case PGType_ctor env fcinfo of
        Inl e \<Rightarrow> (Inl e, db)
      | Inr arg \<Rightarrow>
          (case f db (AnyType (AbstractTypeSPtr arg NoDeleter)) of
             (Inl e, db') \<Rightarrow> (Inl e, db')
           | (Inr result, db') \<Rightarrow>
               if isNull result then (Inr (PG_RETURN_NULL fcinfo), db')
               else (case convertToDatum env fcinfo result of
                       Inl e \<Rightarrow> (Inl e, db')
                     | Inr d \<Rightarrow> (Inr (d, fcinfo), db'))))"

text \<open>
  Lines 58 to 89, the inner \<^verbatim>\<open>try\<close> with its two handlers. An object that
  is no \<^verbatim>\<open>std::exception\<close> passes through.
\<close>

definition inner_try ::
  "'a connector \<Rightarrow> 'a MADFunction \<Rightarrow> PGInterface \<Rightarrow> FunctionCallInfoData \<Rightarrow> locals \<Rightarrow>
     cxx_exception + completion" where
  "inner_try env f db fcinfo l =
     (case inner_block env f db fcinfo of
        (Inr (d, fcinfo'), db') \<Rightarrow> Inr (Return d fcinfo')
      | (Inl (bad_alloc w), db') \<Rightarrow>
          Inr (Next (l\<lparr>sqlerrcode := ERRCODE_OUT_OF_MEMORY,
                       msg := strncpy (msg l) (bad_alloc_text (PACKAGE_NAME env)) sizeof_msg\<rparr>))
      | (Inl (std_exception w), db') \<Rightarrow>
          (let error = (case lastError db' of None \<Rightarrow> w | Some pending \<Rightarrow> pending)
           in Inr (Next (l\<lparr>sqlerrcode := ERRCODE_INVALID_PARAMETER_VALUE,
                           msg := strncpy (msg l) error sizeof_msg\<rparr>)))
      | (Inl non_std, db') \<Rightarrow> Inl non_std)"

text \<open>
  Lines 55 to 98, the outer \<^verbatim>\<open>try\<close>. Its first handler takes every
  \<^verbatim>\<open>std::exception\<close>, a \<^verbatim>\<open>bad_alloc\<close> too; its second takes
  everything else.
\<close>

definition outer_try ::
  "'a connector \<Rightarrow> 'a MADFunction \<Rightarrow> FunctionCallInfoData \<Rightarrow> locals \<Rightarrow> completion" where
  "outer_try env f fcinfo l =
     (case (case PGInterface_ctor env fcinfo of
              Inl e \<Rightarrow> Inl e
            | Inr db \<Rightarrow> inner_try env f db fcinfo l) of
        Inr c \<Rightarrow> c
      | Inl (bad_alloc w) \<Rightarrow>
          Next (l\<lparr>sqlerrcode := ERRCODE_INVALID_PARAMETER_VALUE,
                  msg := strncpy (msg l) w sizeof_msg\<rparr>)
      | Inl (std_exception w) \<Rightarrow>
          Next (l\<lparr>sqlerrcode := ERRCODE_INVALID_PARAMETER_VALUE,
                  msg := strncpy (msg l) w sizeof_msg\<rparr>)
      | Inl non_std \<Rightarrow>
          Next (l\<lparr>sqlerrcode := ERRCODE_INVALID_PARAMETER_VALUE,
                  msg := strncpy (msg l) ''Unknown exception was raised.'' sizeof_msg\<rparr>))"

text \<open>
  What an invocation leaves behind: how control left \<^verbatim>\<open>call\<close>, the
  host's call state, the reports that the host's error channel received, and the
  locals as they stood when control left.
\<close>

datatype exit = Normal Datum | NonLocal

record call_result =
  how :: exit
  fcinfo_out :: FunctionCallInfoData
  errordata :: "ErrorData list"
  frame :: locals

text \<open>
  The whole function. After the outer \<^verbatim>\<open>try\<close> (lines 103 to 116) the last
  byte of the buffer is set to NUL, the report goes to \<^verbatim>\<open>ereport\<close> at
  severity \<^verbatim>\<open>ERROR\<close>, and a \<^verbatim>\<open>PG_RETURN_NULL()\<close> follows in
  the text of the function.
\<close>

definition call ::
  "'a connector \<Rightarrow> 'a MADFunction \<Rightarrow> FunctionCallInfoData \<Rightarrow> locals \<Rightarrow> call_result" where
  "call env f fcinfo l0 =
     (case outer_try env f fcinfo l0 of
        Return d fcinfo' \<Rightarrow>
          \<lparr>how = Normal d, fcinfo_out = fcinfo', errordata = [], frame = l0\<rparr>
      | Next l \<Rightarrow>
          (let l' = l\<lparr>msg := (msg l)[sizeof_msg - 1 := NUL]\<rparr> in
           case ereport ERROR (sqlerrcode l')
                  (errmsg (format_procedure env (fn_oid fcinfo)) (msg l')) of
             Longjmp es \<Rightarrow>
               \<lparr>how = NonLocal, fcinfo_out = fcinfo, errordata = es, frame = l'\<rparr>
           | Returns es \<Rightarrow>
               (case PG_RETURN_NULL fcinfo of
                  (d, fcinfo') \<Rightarrow>
                    \<lparr>how = Normal d, fcinfo_out = fcinfo', errordata = es, frame = l'\<rparr>)))"

subsection \<open>Example invocations\<close>

text \<open>
  A small connector for the concrete invocations below: the exported function is
  named \<open>add\<close>, its two arguments are 1 and 2, a value holding one number
  converts to the host's word and every other value makes the conversion throw.
  The native functions: \<open>example_add\<close> adds, \<open>example_null\<close> returns
  the null value, \<open>example_echo\<close> returns its argument,
  \<open>example_diagnostic\<close> writes the diagnostic slot and throws,
  \<open>example_exhausted\<close> writes the diagnostic slot and runs out of memory,
  \<open>example_throw_int\<close> throws an object that is no exception.
\<close>

definition example_fcinfo :: FunctionCallInfoData where
  "example_fcinfo = \<lparr>fn_oid = 16384, isnull = False\<rparr>"

definition example_locals :: locals where
  "example_locals = \<lparr>sqlerrcode = ERRCODE_OUT_OF_MEMORY, msg = replicate 2048 (CHR ''?'')\<rparr>"

fun example_convert :: "FunctionCallInfoData \<Rightarrow> int list AnyType \<Rightarrow> cxx_exception + Datum" where
  "example_convert fcinfo (AnyType (AbstractTypeSPtr [n] d)) = Inr (word_of_int n)"
| "example_convert fcinfo v = Inl (std_exception ''Internal type conversion error'')"

definition example_env :: "int list connector" where
  "example_env =
     \<lparr>PGInterface_ctor = (\<lambda>fcinfo. Inr \<lparr>lastError = None\<rparr>),
      PGType_ctor = (\<lambda>fcinfo. Inr [1, 2]),
      convertToDatum = example_convert,
      format_procedure = (\<lambda>oid. ''add''),
      PACKAGE_NAME = ''MADlib''\<rparr>"

fun example_add :: "int list MADFunction" where
  "example_add db (AnyType (AbstractTypeSPtr [x, y] d)) =
     (Inr (AnyType (AbstractTypeSPtr [x + y] DefaultDelete)), db)"
| "example_add db v = (Inl (std_exception ''add expects two numbers''), db)"

definition example_null :: "int list MADFunction" where
  "example_null db v = (Inr Null, db)"

definition example_echo :: "int list MADFunction" where
  "example_echo db v = (Inr v, db)"

definition example_diagnostic :: "int list MADFunction" where
  "example_diagnostic db v = (Inl (std_exception ''M2''), db\<lparr>lastError := Some ''M1''\<rparr>)"

definition example_exhausted :: "int list MADFunction" where
  "example_exhausted db v = (Inl (bad_alloc ''std::bad_alloc''), db\<lparr>lastError := Some ''M1''\<rparr>)"

definition example_throw_int :: "int list MADFunction" where
  "example_throw_int db v = (Inl non_std, db)"

text \<open>The same connector with a context whose constructor runs out of memory.\<close>

definition example_env_no_context :: "int list connector" where
  "example_env_no_context =
     example_env\<lparr>PGInterface_ctor := (\<lambda>fcinfo. Inl (bad_alloc ''std::bad_alloc''))\<rparr>"

text \<open>The same connector with a context whose constructor throws an exception with a text.\<close>

definition example_env_bad_context :: "int list connector" where
  "example_env_bad_context =
     example_env\<lparr>PGInterface_ctor := (\<lambda>fcinfo. Inl (std_exception ''no call state''))\<rparr>"

text \<open>
  The same connector with a context whose constructor throws an exception with a
  text of 3048 bytes, 1000 more than the buffer has.
\<close>

definition example_env_long_text :: "int list connector" where
  "example_env_long_text =
     example_env\<lparr>PGInterface_ctor :=
       (\<lambda>fcinfo. Inl (std_exception (replicate 3048 (CHR ''x''))))\<rparr>"

text \<open>
  A native function that adds, and throws when it is handed a value that its
  container owns.
\<close>

fun example_sensitive :: "int list MADFunction" where
  "example_sensitive db (AnyType (AbstractTypeSPtr p DefaultDelete)) = (Inl non_std, db)"
| "example_sensitive db v = example_add db v"

section \<open>Auxiliary facts\<close>

subsection \<open>The buffer\<close>

lemma c_str_no_NUL: "NUL \<notin> set (c_str p)"
  by (auto simp: c_str_def dest: set_takeWhileD)

lemma c_str_stops: "NUL \<notin> set xs \<Longrightarrow> c_str (xs @ NUL # ys) = xs"
  by (auto simp: c_str_def takeWhile_tail)

lemma c_str_idem: "NUL \<notin> set xs \<Longrightarrow> c_str xs = xs"
  by (auto simp: c_str_def)

lemma terminated_shape:
  assumes "0 < n"
  shows "(strncpy dst src n)[n - 1 := NUL] =
           take (n - 1) (c_str src) @ NUL # replicate (n - 1 - length (c_str src)) NUL @ drop n dst"
proof -
  let ?s = "c_str src"
  let ?p = "?s @ replicate n NUL"
  have len: "n - 1 < length ?p" using assms by simp
  have "take n ?p = take (Suc (n - 1)) ?p" using assms by simp
  also have "\<dots> = take (n - 1) ?p @ [?p ! (n - 1)]"
    using len by (rule take_Suc_conv_app_nth)
  finally have t: "take n ?p = take (n - 1) ?p @ [?p ! (n - 1)]" .
  have l: "length (take (n - 1) ?p) = n - 1" using assms by simp
  have "(take (n - 1) ?p @ ?p ! (n - 1) # drop n dst)[length (take (n - 1) ?p) := NUL]
          = take (n - 1) ?p @ NUL # drop n dst"
    by (rule list_update_length)
  then have "(strncpy dst src n)[n - 1 := NUL] = take (n - 1) ?p @ NUL # drop n dst"
    unfolding strncpy_def t l by simp
  moreover have "take (n - 1) ?p = take (n - 1) ?s @ replicate (n - 1 - length ?s) NUL"
    using assms by (simp add: min_def)
  ultimately show ?thesis
    by (simp add: replicate_append_same)
qed

lemma terminated_c_str:
  "0 < n \<Longrightarrow> c_str ((strncpy dst src n)[n - 1 := NUL]) = take (n - 1) (c_str src)"
proof -
  assume n: "0 < n"
  have "NUL \<notin> set (take (n - 1) (c_str src))"
    using c_str_no_NUL by (metis in_set_takeD)
  then show ?thesis
    unfolding terminated_shape [OF n] by (rule c_str_stops)
qed

lemma terminated_length:
  "length ((strncpy dst src n)[n - 1 := NUL]) = n + (length dst - n)"
  by (simp add: strncpy_def)

lemma terminated_last:
  "0 < n \<Longrightarrow> (strncpy dst src n)[n - 1 := NUL] ! (n - 1) = NUL"
  by (simp add: strncpy_def nth_append)

subsection \<open>The paths through the function\<close>

lemma errmsg_terminated:
  "errmsg name ((strncpy dst text sizeof_msg)[sizeof_msg - 1 := NUL]) =
     errmsg name (take (sizeof_msg - 1) (c_str text))"
proof -
  have pos: "0 < sizeof_msg" by (simp add: sizeof_msg_def)
  have "NUL \<notin> set (take (sizeof_msg - 1) (c_str text))"
    using c_str_no_NUL by (metis in_set_takeD)
  then have "c_str (take (sizeof_msg - 1) (c_str text)) = take (sizeof_msg - 1) (c_str text)"
    by (rule c_str_idem)
  then show ?thesis
    unfolding errmsg_def terminated_c_str [OF pos] by simp
qed

lemma call_Return:
  "outer_try env f fcinfo l0 = Return d fcinfo' \<Longrightarrow>
     call env f fcinfo l0 = \<lparr>how = Normal d, fcinfo_out = fcinfo', errordata = [], frame = l0\<rparr>"
  by (simp add: call_def)

lemma call_Next:
  "outer_try env f fcinfo l0 = Next l \<Longrightarrow>
     call env f fcinfo l0 =
       \<lparr>how = NonLocal, fcinfo_out = fcinfo,
        errordata = [(ERROR, sqlerrcode l,
          errmsg (format_procedure env (fn_oid fcinfo)) ((msg l)[sizeof_msg - 1 := NUL]))],
        frame = l\<lparr>msg := (msg l)[sizeof_msg - 1 := NUL]\<rparr>\<rparr>"
  by (simp add: call_def ereport_def Let_def)

lemma outer_try_ctor_throws:
  "PGInterface_ctor env fcinfo = Inl e \<Longrightarrow>
     outer_try env f fcinfo l =
       Next (l\<lparr>sqlerrcode := ERRCODE_INVALID_PARAMETER_VALUE,
               msg := strncpy (msg l)
                 (case what e of Some w \<Rightarrow> w | None \<Rightarrow> ''Unknown exception was raised.'')
                 sizeof_msg\<rparr>)"
  by (cases e) (simp_all add: outer_try_def)

lemma outer_try_returns:
  "PGInterface_ctor env fcinfo = Inr db \<Longrightarrow>
   inner_block env f db fcinfo = (Inr (d, fcinfo'), db') \<Longrightarrow>
     outer_try env f fcinfo l = Return d fcinfo'"
  by (simp add: outer_try_def inner_try_def)

lemma outer_try_bad_alloc:
  "PGInterface_ctor env fcinfo = Inr db \<Longrightarrow>
   inner_block env f db fcinfo = (Inl (bad_alloc w), db') \<Longrightarrow>
     outer_try env f fcinfo l =
       Next (l\<lparr>sqlerrcode := ERRCODE_OUT_OF_MEMORY,
               msg := strncpy (msg l) (bad_alloc_text (PACKAGE_NAME env)) sizeof_msg\<rparr>)"
  by (simp add: outer_try_def inner_try_def)

lemma outer_try_std_exception:
  "PGInterface_ctor env fcinfo = Inr db \<Longrightarrow>
   inner_block env f db fcinfo = (Inl (std_exception w), db') \<Longrightarrow>
     outer_try env f fcinfo l =
       Next (l\<lparr>sqlerrcode := ERRCODE_INVALID_PARAMETER_VALUE,
               msg := strncpy (msg l)
                 (case lastError db' of None \<Rightarrow> w | Some pending \<Rightarrow> pending) sizeof_msg\<rparr>)"
  by (simp add: outer_try_def inner_try_def)

lemma outer_try_non_std:
  "PGInterface_ctor env fcinfo = Inr db \<Longrightarrow>
   inner_block env f db fcinfo = (Inl non_std, db') \<Longrightarrow>
     outer_try env f fcinfo l =
       Next (l\<lparr>sqlerrcode := ERRCODE_INVALID_PARAMETER_VALUE,
               msg := strncpy (msg l) ''Unknown exception was raised.'' sizeof_msg\<rparr>)"
  by (simp add: outer_try_def inner_try_def)

lemma call_fails:
  "outer_try env f fcinfo l0 = Next (l0\<lparr>sqlerrcode := code, msg := strncpy (msg l0) text sizeof_msg\<rparr>) \<Longrightarrow>
     call env f fcinfo l0 =
       \<lparr>how = NonLocal, fcinfo_out = fcinfo,
        errordata = [(ERROR, code,
          errmsg (format_procedure env (fn_oid fcinfo)) (take (sizeof_msg - 1) (c_str text)))],
        frame = \<lparr>sqlerrcode = code, msg = (strncpy (msg l0) text sizeof_msg)[sizeof_msg - 1 := NUL]\<rparr>\<rparr>"
  by (simp add: call_Next errmsg_terminated del: One_nat_def)

lemma take_c_str_idem:
  "c_str (take n (c_str text)) = take n (c_str text)"
proof -
  have "NUL \<notin> set (take n (c_str text))"
    using c_str_no_NUL by (metis in_set_takeD)
  then show ?thesis by (rule c_str_idem)
qed

lemma outer_try_Next_shape:
  "outer_try env f fcinfo l0 = Next l \<Longrightarrow>
     \<exists>code text. l = l0\<lparr>sqlerrcode := code, msg := strncpy (msg l0) text sizeof_msg\<rparr>"
  unfolding outer_try_def inner_try_def
  by (auto simp: Let_def split: sum.splits prod.splits cxx_exception.splits)

lemma outer_try_Return_origin:
  "outer_try env f fcinfo l0 = Return d fcinfo' \<Longrightarrow>
     \<exists>db db'. PGInterface_ctor env fcinfo = Inr db \<and>
        inner_block env f db fcinfo = (Inr (d, fcinfo'), db')"
  unfolding outer_try_def inner_try_def
  by (auto simp: Let_def split: sum.splits prod.splits cxx_exception.splits)

lemma outer_try_Next_origin:
  "outer_try env f fcinfo l0 = Next l \<Longrightarrow>
     (\<exists>e. PGInterface_ctor env fcinfo = Inl e) \<or>
     (\<exists>db e db'. PGInterface_ctor env fcinfo = Inr db \<and>
        inner_block env f db fcinfo = (Inl e, db'))"
  unfolding outer_try_def inner_try_def
  by (auto simp: Let_def split: sum.splits prod.splits cxx_exception.splits)

lemma unknown_text_fits:
  "take (sizeof_msg - 1) (c_str ''Unknown exception was raised.'') =
     ''Unknown exception was raised.''"
  by (simp add: sizeof_msg_def c_str_def NUL_def)

lemma call_ctor_throws:
  "PGInterface_ctor env fcinfo = Inl e \<Longrightarrow>
     call env f fcinfo l0 =
       \<lparr>how = NonLocal, fcinfo_out = fcinfo,
        errordata = [(ERROR, ERRCODE_INVALID_PARAMETER_VALUE,
          errmsg (format_procedure env (fn_oid fcinfo))
            (take (sizeof_msg - 1)
               (c_str (case what e of Some w \<Rightarrow> w | None \<Rightarrow> ''Unknown exception was raised.''))))],
        frame = \<lparr>sqlerrcode = ERRCODE_INVALID_PARAMETER_VALUE,
                 msg = (strncpy (msg l0)
                   (case what e of Some w \<Rightarrow> w | None \<Rightarrow> ''Unknown exception was raised.'')
                   sizeof_msg)[sizeof_msg - 1 := NUL]\<rparr>\<rparr>"
  by (rule call_fails) (rule outer_try_ctor_throws)

lemma call_bad_alloc:
  "PGInterface_ctor env fcinfo = Inr db \<Longrightarrow>
   inner_block env f db fcinfo = (Inl (bad_alloc w), db') \<Longrightarrow>
     call env f fcinfo l0 =
       \<lparr>how = NonLocal, fcinfo_out = fcinfo,
        errordata = [(ERROR, ERRCODE_OUT_OF_MEMORY,
          errmsg (format_procedure env (fn_oid fcinfo))
            (take (sizeof_msg - 1) (c_str (bad_alloc_text (PACKAGE_NAME env)))))],
        frame = \<lparr>sqlerrcode = ERRCODE_OUT_OF_MEMORY,
                 msg = (strncpy (msg l0) (bad_alloc_text (PACKAGE_NAME env))
                   sizeof_msg)[sizeof_msg - 1 := NUL]\<rparr>\<rparr>"
  by (rule call_fails) (rule outer_try_bad_alloc)

lemma call_std_exception:
  "PGInterface_ctor env fcinfo = Inr db \<Longrightarrow>
   inner_block env f db fcinfo = (Inl (std_exception w), db') \<Longrightarrow>
     call env f fcinfo l0 =
       \<lparr>how = NonLocal, fcinfo_out = fcinfo,
        errordata = [(ERROR, ERRCODE_INVALID_PARAMETER_VALUE,
          errmsg (format_procedure env (fn_oid fcinfo))
            (take (sizeof_msg - 1)
               (c_str (case lastError db' of None \<Rightarrow> w | Some pending \<Rightarrow> pending))))],
        frame = \<lparr>sqlerrcode = ERRCODE_INVALID_PARAMETER_VALUE,
                 msg = (strncpy (msg l0)
                   (case lastError db' of None \<Rightarrow> w | Some pending \<Rightarrow> pending)
                   sizeof_msg)[sizeof_msg - 1 := NUL]\<rparr>\<rparr>"
  by (rule call_fails) (rule outer_try_std_exception)

lemma call_non_std:
  "PGInterface_ctor env fcinfo = Inr db \<Longrightarrow>
   inner_block env f db fcinfo = (Inl non_std, db') \<Longrightarrow>
     call env f fcinfo l0 =
       \<lparr>how = NonLocal, fcinfo_out = fcinfo,
        errordata = [(ERROR, ERRCODE_INVALID_PARAMETER_VALUE,
          errmsg (format_procedure env (fn_oid fcinfo))
            (take (sizeof_msg - 1) (c_str ''Unknown exception was raised.'')))],
        frame = \<lparr>sqlerrcode = ERRCODE_INVALID_PARAMETER_VALUE,
                 msg = (strncpy (msg l0) ''Unknown exception was raised.''
                   sizeof_msg)[sizeof_msg - 1 := NUL]\<rparr>\<rparr>"
  by (rule call_fails) (rule outer_try_non_std)

lemma call_returns:
  "PGInterface_ctor env fcinfo = Inr db \<Longrightarrow>
   inner_block env f db fcinfo = (Inr (d, fcinfo'), db') \<Longrightarrow>
     call env f fcinfo l0 =
       \<lparr>how = Normal d, fcinfo_out = fcinfo', errordata = [], frame = l0\<rparr>"
  by (rule call_Return) (rule outer_try_returns)

subsection \<open>The example invocations\<close>

lemma ib_add: "inner_block example_env example_add \<lparr>lastError = None\<rparr> example_fcinfo = (Inr (3, example_fcinfo), \<lparr>lastError = None\<rparr>)"
  by (simp add: inner_block_def example_env_def)

lemma ib_null: "inner_block example_env example_null \<lparr>lastError = None\<rparr> example_fcinfo = (Inr (0, example_fcinfo\<lparr>isnull := True\<rparr>), \<lparr>lastError = None\<rparr>)"
  by (simp add: inner_block_def example_env_def example_null_def PG_RETURN_NULL_def)

lemma ib_echo: "inner_block example_env example_echo \<lparr>lastError = None\<rparr> example_fcinfo = (Inl (std_exception ''Internal type conversion error''), \<lparr>lastError = None\<rparr>)"
  by (simp add: inner_block_def example_env_def example_echo_def)

lemma ib_diag: "inner_block example_env example_diagnostic \<lparr>lastError = None\<rparr> example_fcinfo = (Inl (std_exception ''M2''), \<lparr>lastError = Some ''M1''\<rparr>)"
  by (simp add: inner_block_def example_env_def example_diagnostic_def)

lemma ib_exhausted:
  "inner_block example_env example_exhausted \<lparr>lastError = None\<rparr> example_fcinfo =
     (Inl (bad_alloc ''std::bad_alloc''), \<lparr>lastError = Some ''M1''\<rparr>)"
  by (simp add: inner_block_def example_env_def example_exhausted_def)

lemma ib_throw_int:
  "inner_block example_env example_throw_int \<lparr>lastError = None\<rparr> example_fcinfo =
     (Inl non_std, \<lparr>lastError = None\<rparr>)"
  by (simp add: inner_block_def example_env_def example_throw_int_def)

lemma example_ctor: "PGInterface_ctor example_env example_fcinfo = Inr \<lparr>lastError = None\<rparr>"
  by (simp add: example_env_def)

lemma example_name: "format_procedure example_env (fn_oid example_fcinfo) = ''add''"
  by (simp add: example_env_def)

lemma example_bad_alloc_text:
  "take (sizeof_msg - 1) (c_str (bad_alloc_text (PACKAGE_NAME example_env))) =
     ''Memory allocation failed. Typically, this indicates that MADlib limits the available memory to less than what is needed for this input.''"
  by (simp add: example_env_def bad_alloc_text_def c_str_def NUL_def sizeof_msg_def)

lemma errordata_cases:
  "errordata (call env f fcinfo l0) = [] \<or>
   errordata (call env f fcinfo l0) =
     [(ERROR, ERRCODE_OUT_OF_MEMORY,
       errmsg (format_procedure env (fn_oid fcinfo))
         (take (sizeof_msg - 1) (c_str (bad_alloc_text (PACKAGE_NAME env)))))] \<or>
   (\<exists>m. errordata (call env f fcinfo l0) = [(ERROR, ERRCODE_INVALID_PARAMETER_VALUE, m)])"
proof (cases "PGInterface_ctor env fcinfo")
  case (Inl e)
  then show ?thesis by (simp add: call_ctor_throws del: One_nat_def)
next
  case (Inr db)
  obtain r db' where ib: "inner_block env f db fcinfo = (r, db')"
    by (cases "inner_block env f db fcinfo")
  show ?thesis
  proof (cases r)
    case (Inl e)
    show ?thesis
    proof (cases e)
      case (bad_alloc w)
      with Inr ib Inl show ?thesis by (simp add: call_bad_alloc del: One_nat_def)
    next
      case (std_exception w)
      with Inr ib Inl show ?thesis by (simp add: call_std_exception del: One_nat_def)
    next
      case non_std
      with Inr ib Inl show ?thesis by (simp add: call_non_std del: One_nat_def)
    qed
  next
    case (Inr ret)
    obtain d fcinfo' where "ret = (d, fcinfo')" by (cases ret)
    with \<open>PGInterface_ctor env fcinfo = Inr db\<close> ib Inr show ?thesis
      by (simp add: call_returns)
  qed
qed

lemma frame_cases:
  "frame (call env f fcinfo l0) = l0 \<and> how (call env f fcinfo l0) \<noteq> NonLocal \<or>
   (\<exists>code text.
      frame (call env f fcinfo l0) =
        \<lparr>sqlerrcode = code, msg = (strncpy (msg l0) text sizeof_msg)[sizeof_msg - 1 := NUL]\<rparr>)"
proof (cases "outer_try env f fcinfo l0")
  case (Return d fcinfo')
  then show ?thesis by (simp add: call_Return)
next
  case (Next l)
  from outer_try_Next_shape [OF Next] obtain c t
    where "l = l0\<lparr>sqlerrcode := c, msg := strncpy (msg l0) t sizeof_msg\<rparr>" by blast
  then have "frame (call env f fcinfo l0) =
      \<lparr>sqlerrcode = c, msg = (strncpy (msg l0) t sizeof_msg)[sizeof_msg - 1 := NUL]\<rparr>"
    by (simp add: call_Next [OF Next])
  then show ?thesis by blast
qed

lemma inner_block_invoked:
  "PGType_ctor env fcinfo = Inr arg \<Longrightarrow>
   f db (AnyType (AbstractTypeSPtr arg NoDeleter)) = (Inr result, db') \<Longrightarrow>
     inner_block env f db fcinfo =
       (if isNull result then (Inr (0, fcinfo\<lparr>isnull := True\<rparr>), db')
        else (case convertToDatum env fcinfo result of
                Inl e \<Rightarrow> (Inl e, db')
              | Inr d \<Rightarrow> (Inr (d, fcinfo), db')))"
  by (simp add: inner_block_def PG_RETURN_NULL_def)

lemma call_thrown:
  "PGInterface_ctor env fcinfo = Inr db \<Longrightarrow>
   inner_block env f db fcinfo = (Inl e, db') \<Longrightarrow>
     how (call env f fcinfo l0) = NonLocal \<and> length (errordata (call env f fcinfo l0)) = 1"
  by (cases e) (simp_all add: call_bad_alloc call_std_exception call_non_std)

section \<open>The claims\<close>

text \<open>
  Claim C1. The claim holds inside the guarded block and fails for an
  allocation failure thrown by the constructor of the context, which
  \<^verbatim>\<open>call\<close> runs outside the inner \<^verbatim>\<open>try\<close>: only the inner
  \<^verbatim>\<open>try\<close> has a handler for \<^verbatim>\<open>std::bad_alloc\<close>. At this input
  the report carries the code for an invalid argument and the text of the
  exception.
\<close>

theorem C1_bad_alloc_in_constructor_not_out_of_memory:
  "PGInterface_ctor example_env_no_context example_fcinfo = Inl (bad_alloc ''std::bad_alloc'') \<and>
   errordata (call example_env_no_context example_exhausted example_fcinfo example_locals) =
     [(ERROR, ERRCODE_INVALID_PARAMETER_VALUE,
       ''Function '' @ [CHR 0x22] @ ''add'' @ [CHR 0x22] @ '': std::bad_alloc'')]"
proof -
  have ctor: "PGInterface_ctor example_env_no_context example_fcinfo =
      Inl (bad_alloc ''std::bad_alloc'')"
    by (simp add: example_env_no_context_def)
  have name: "format_procedure example_env_no_context (fn_oid example_fcinfo) = ''add''"
    by (simp add: example_env_no_context_def example_env_def)
  have "take (sizeof_msg - 1) (c_str ''std::bad_alloc'') = ''std::bad_alloc''"
    by (simp add: sizeof_msg_def c_str_def NUL_def)
  then have "errordata (call example_env_no_context example_exhausted example_fcinfo example_locals) =
     [(ERROR, ERRCODE_INVALID_PARAMETER_VALUE, errmsg ''add'' ''std::bad_alloc'')]"
    by (simp add: call_ctor_throws [OF ctor] name del: One_nat_def)
  then show ?thesis
    using ctor by (simp add: errmsg_def c_str_def NUL_def)
qed

text \<open>
  Claim C2. When the context has been constructed and the guarded block throws an
  exception that carries a message and is no allocation failure, the invocation
  is reported once, with the code for an invalid argument. The message is the
  text of the exception, unless the diagnostic slot of the context is set: then
  it is the text of the slot. The buffer cuts either text after
  \<open>sizeof_msg - 1\<close> bytes. In the example the native function writes
  \<open>M1\<close> into the slot and throws an exception with the text \<open>M2\<close>;
  the report reads \<open>M1\<close>.
\<close>

theorem C2_diagnostic_overrides_exception_text:
  assumes "PGInterface_ctor env fcinfo = Inr db"
    and "inner_block env f db fcinfo = (Inl (std_exception w), db')"
  shows "how (call env f fcinfo l0) = NonLocal \<and>
         errordata (call env f fcinfo l0) =
           [(ERROR, ERRCODE_INVALID_PARAMETER_VALUE,
             errmsg (format_procedure env (fn_oid fcinfo))
               (take (sizeof_msg - 1)
                  (c_str (case lastError db' of None \<Rightarrow> w | Some pending \<Rightarrow> pending))))]"
  by (simp add: call_std_exception [OF assms] del: One_nat_def)

theorem C2_diagnostic_overrides_exception_text_witness:
  "how (call example_env example_diagnostic example_fcinfo example_locals) = NonLocal \<and>
   errordata (call example_env example_diagnostic example_fcinfo example_locals) =
     [(ERROR, ERRCODE_INVALID_PARAMETER_VALUE,
       ''Function '' @ [CHR 0x22] @ ''add'' @ [CHR 0x22] @ '': M1'')]"
proof -
  have ctor: "PGInterface_ctor example_env example_fcinfo = Inr \<lparr>lastError = None\<rparr>"
    by (simp add: example_env_def)
  have name: "format_procedure example_env (fn_oid example_fcinfo) = ''add''"
    by (simp add: example_env_def)
  show ?thesis
    using C2_diagnostic_overrides_exception_text [OF ctor ib_diag, of example_locals]
    by (simp add: name errmsg_def c_str_def NUL_def sizeof_msg_def)
qed

text \<open>
  Claim C3, as stated, fails when the conversion of the result throws: the native
  function \<open>example_echo\<close> returns its argument, a value that is not null, the
  conversion throws, and the invocation leaves by the non-local exit.
\<close>

theorem C3_conversion_failure_counterexample:
  "PGInterface_ctor example_env example_fcinfo = Inr \<lparr>lastError = None\<rparr> \<and>
   PGType_ctor example_env example_fcinfo = Inr [1, 2] \<and>
   example_echo \<lparr>lastError = None\<rparr> (AnyType (AbstractTypeSPtr [1, 2] NoDeleter)) =
     (Inr (AnyType (AbstractTypeSPtr [1, 2] NoDeleter)), \<lparr>lastError = None\<rparr>) \<and>
   isNull (AnyType (AbstractTypeSPtr [1, 2 :: int] NoDeleter)) = False \<and>
   how (call example_env example_echo example_fcinfo example_locals) = NonLocal \<and>
   errordata (call example_env example_echo example_fcinfo example_locals) =
     [(ERROR, ERRCODE_INVALID_PARAMETER_VALUE,
       ''Function '' @ [CHR 0x22] @ ''add'' @ [CHR 0x22] @
       '': Internal type conversion error'')]"
proof -
  have "take (sizeof_msg - 1) (c_str ''Internal type conversion error'') =
      ''Internal type conversion error''"
    by (simp add: sizeof_msg_def c_str_def NUL_def)
  then have "call example_env example_echo example_fcinfo example_locals =
       \<lparr>how = NonLocal, fcinfo_out = example_fcinfo,
        errordata = [(ERROR, ERRCODE_INVALID_PARAMETER_VALUE,
          errmsg ''add'' ''Internal type conversion error'')],
        frame = \<lparr>sqlerrcode = ERRCODE_INVALID_PARAMETER_VALUE,
                 msg = (strncpy (msg example_locals) ''Internal type conversion error''
                   sizeof_msg)[sizeof_msg - 1 := NUL]\<rparr>\<rparr>"
    using call_std_exception [OF example_ctor ib_echo, of example_locals]
    by (simp add: example_name del: One_nat_def)
  then show ?thesis
    by (simp add: example_env_def example_echo_def errmsg_def c_str_def NUL_def)
qed

text \<open>
  Claim C3, amended. When the native function has been invoked and returns
  normally: if its result is null, \<^verbatim>\<open>call\<close> returns the zero word with
  the host's null flag set and makes no report; if the result is not null and its
  conversion gives a word, \<^verbatim>\<open>call\<close> returns that word, the host's call
  state unchanged, and makes no report; if the conversion throws, the invocation
  is reported once, by the non-local exit.
\<close>

theorem C3_normal_return_of_the_native_function:
  assumes "PGInterface_ctor env fcinfo = Inr db"
    and "PGType_ctor env fcinfo = Inr arg"
    and "f db (AnyType (AbstractTypeSPtr arg NoDeleter)) = (Inr result, db')"
  shows "(isNull result \<longrightarrow>
            call env f fcinfo l0 =
              \<lparr>how = Normal 0, fcinfo_out = fcinfo\<lparr>isnull := True\<rparr>,
               errordata = [], frame = l0\<rparr>) \<and>
         (\<not> isNull result \<longrightarrow>
            (case convertToDatum env fcinfo result of
               Inr d \<Rightarrow>
                 call env f fcinfo l0 =
                   \<lparr>how = Normal d, fcinfo_out = fcinfo, errordata = [], frame = l0\<rparr>
             | Inl e \<Rightarrow>
                 how (call env f fcinfo l0) = NonLocal \<and>
                 length (errordata (call env f fcinfo l0)) = 1))"
proof (intro conjI impI)
  assume n: "isNull result"
  have "inner_block env f db fcinfo = (Inr (0, fcinfo\<lparr>isnull := True\<rparr>), db')"
    using inner_block_invoked [where f = f and db = db, OF assms(2,3)] n by simp
  then show "call env f fcinfo l0 =
      \<lparr>how = Normal 0, fcinfo_out = fcinfo\<lparr>isnull := True\<rparr>, errordata = [], frame = l0\<rparr>"
    by (rule call_returns [OF assms(1)])
next
  assume n: "\<not> isNull result"
  show "case convertToDatum env fcinfo result of
          Inr d \<Rightarrow>
            call env f fcinfo l0 =
              \<lparr>how = Normal d, fcinfo_out = fcinfo, errordata = [], frame = l0\<rparr>
        | Inl e \<Rightarrow>
            how (call env f fcinfo l0) = NonLocal \<and>
            length (errordata (call env f fcinfo l0)) = 1"
  proof (cases "convertToDatum env fcinfo result")
    case (Inl e)
    have "inner_block env f db fcinfo = (Inl e, db')"
      using inner_block_invoked [where f = f and db = db, OF assms(2,3)] n Inl by simp
    from call_thrown [OF assms(1) this] Inl show ?thesis by simp
  next
    case (Inr d)
    have "inner_block env f db fcinfo = (Inr (d, fcinfo), db')"
      using inner_block_invoked [where f = f and db = db, OF assms(2,3)] n Inr by simp
    from call_returns [OF assms(1) this] Inr show ?thesis by simp
  qed
qed

theorem C3_normal_return_of_the_native_function_witness:
  "call example_env example_null example_fcinfo example_locals =
     \<lparr>how = Normal 0, fcinfo_out = example_fcinfo\<lparr>isnull := True\<rparr>,
      errordata = [], frame = example_locals\<rparr> \<and>
   call example_env example_add example_fcinfo example_locals =
     \<lparr>how = Normal 3, fcinfo_out = example_fcinfo, errordata = [], frame = example_locals\<rparr>"
proof -
  have arg: "PGType_ctor example_env example_fcinfo = Inr [1, 2]"
    by (simp add: example_env_def)
  have conv: "convertToDatum example_env = example_convert"
    by (simp add: example_env_def)
  have a: "example_null \<lparr>lastError = None\<rparr> (AnyType (AbstractTypeSPtr [1, 2] NoDeleter)) =
      (Inr Null, \<lparr>lastError = None\<rparr>)"
    by (simp add: example_null_def)
  have b: "example_add \<lparr>lastError = None\<rparr> (AnyType (AbstractTypeSPtr [1, 2] NoDeleter)) =
      (Inr (AnyType (AbstractTypeSPtr [3] DefaultDelete)), \<lparr>lastError = None\<rparr>)"
    by simp
  show ?thesis
    using C3_normal_return_of_the_native_function
            [where f = example_null and db = "\<lparr>lastError = None\<rparr>" and ?l0.0 = example_locals,
             OF example_ctor arg a]
          C3_normal_return_of_the_native_function
            [where f = example_add and db = "\<lparr>lastError = None\<rparr>" and ?l0.0 = example_locals,
             OF example_ctor arg b]
    by (simp add: conv)
qed

text \<open>
  Claim C4. The buffer \<^verbatim>\<open>msg\<close> has 2048 bytes at entry and keeps that
  length whatever the invocation does: no write goes past its end. When the
  invocation is reported, the last byte of the buffer is NUL and the string in it
  has at most 2047 bytes, so that string and its terminator fit the 2048 bytes.
  A text of any length thrown by the constructor of the context is stored as its
  first 2047 bytes. In the example the text has 3048 bytes.
\<close>

theorem C4_message_fits_the_buffer:
  assumes "length (msg l0) = sizeof_msg"
  shows "sizeof_msg = 2048 \<and>
         length (msg (frame (call env f fcinfo l0))) = sizeof_msg \<and>
         (how (call env f fcinfo l0) = NonLocal \<longrightarrow>
            msg (frame (call env f fcinfo l0)) ! (sizeof_msg - 1) = NUL \<and>
            length (c_str (msg (frame (call env f fcinfo l0)))) \<le> sizeof_msg - 1) \<and>
         (PGInterface_ctor env fcinfo = Inl (std_exception w) \<longrightarrow>
            c_str (msg (frame (call env f fcinfo l0))) = take (sizeof_msg - 1) (c_str w))"
proof (intro conjI impI)
  have pos: "0 < sizeof_msg" by (simp add: sizeof_msg_def)
  show "sizeof_msg = 2048" by (simp add: sizeof_msg_def)
  show "length (msg (frame (call env f fcinfo l0))) = sizeof_msg"
    using frame_cases [of env f fcinfo l0] assms
    by (elim disjE exE conjE) (simp_all add: strncpy_def)
  {
    assume nl: "how (call env f fcinfo l0) = NonLocal"
    with frame_cases [of env f fcinfo l0] obtain c t where
      fr: "frame (call env f fcinfo l0) =
        \<lparr>sqlerrcode = c, msg = (strncpy (msg l0) t sizeof_msg)[sizeof_msg - 1 := NUL]\<rparr>"
      by blast
    show "msg (frame (call env f fcinfo l0)) ! (sizeof_msg - 1) = NUL"
      unfolding fr using terminated_last [OF pos] by simp
    show "length (c_str (msg (frame (call env f fcinfo l0)))) \<le> sizeof_msg - 1"
      unfolding fr using terminated_c_str [OF pos, of "msg l0" t] by simp
  }
  {
    assume ctor: "PGInterface_ctor env fcinfo = Inl (std_exception w)"
    show "c_str (msg (frame (call env f fcinfo l0))) = take (sizeof_msg - 1) (c_str w)"
      using terminated_c_str [OF pos, of "msg l0" w]
      by (simp add: call_ctor_throws [OF ctor] del: One_nat_def)
  }
qed

theorem C4_message_fits_the_buffer_witness:
  "length (msg example_locals) = sizeof_msg \<and>
   length (msg (frame (call example_env_long_text example_add example_fcinfo example_locals)))
     = 2048 \<and>
   msg (frame (call example_env_long_text example_add example_fcinfo example_locals)) ! 2047
     = NUL \<and>
   c_str (msg (frame (call example_env_long_text example_add example_fcinfo example_locals)))
     = replicate 2047 (CHR ''x'')"
proof -
  have len: "length (msg example_locals) = sizeof_msg"
    by (simp add: example_locals_def sizeof_msg_def)
  have ctor: "PGInterface_ctor example_env_long_text example_fcinfo =
      Inl (std_exception (replicate 3048 (CHR ''x'')))"
    by (simp add: example_env_long_text_def)
  have nl: "how (call example_env_long_text example_add example_fcinfo example_locals) = NonLocal"
    by (simp add: call_ctor_throws [OF ctor])
  have cut: "take 2047 (c_str (replicate 3048 (CHR ''x''))) = replicate 2047 (CHR ''x'')"
    by (simp add: c_str_def NUL_def)
  show ?thesis
    using C4_message_fits_the_buffer
            [OF len, of example_env_long_text example_add example_fcinfo
               "replicate 3048 (CHR ''x'')"]
          len ctor nl
    by (simp add: sizeof_msg_def cut)
qed

text \<open>
  Claim C5. An exception that leaves the constructor of the context, and an object
  that is no \<^verbatim>\<open>std::exception\<close> thrown inside the guarded block, are each
  reported once, by the non-local exit, with the code for an invalid argument. The
  message is the text of the exception where it has one (cut by the buffer) and
  \<open>Unknown exception was raised.\<close> otherwise.
\<close>

theorem C5_other_failures_are_invalid_argument:
  "(PGInterface_ctor env fcinfo = Inl e \<longrightarrow>
      how (call env f fcinfo l0) = NonLocal \<and>
      errordata (call env f fcinfo l0) =
        [(ERROR, ERRCODE_INVALID_PARAMETER_VALUE,
          errmsg (format_procedure env (fn_oid fcinfo))
            (case what e of
               Some w \<Rightarrow> take (sizeof_msg - 1) (c_str w)
             | None \<Rightarrow> ''Unknown exception was raised.''))]) \<and>
   (PGInterface_ctor env fcinfo = Inr db \<and>
    inner_block env f db fcinfo = (Inl non_std, db') \<longrightarrow>
      how (call env f fcinfo l0) = NonLocal \<and>
      errordata (call env f fcinfo l0) =
        [(ERROR, ERRCODE_INVALID_PARAMETER_VALUE,
          errmsg (format_procedure env (fn_oid fcinfo)) ''Unknown exception was raised.'')])"
proof (intro conjI impI)
  assume ctor: "PGInterface_ctor env fcinfo = Inl e"
  show "how (call env f fcinfo l0) = NonLocal"
    by (simp add: call_ctor_throws [OF ctor])
  show "errordata (call env f fcinfo l0) =
        [(ERROR, ERRCODE_INVALID_PARAMETER_VALUE,
          errmsg (format_procedure env (fn_oid fcinfo))
            (case what e of
               Some w \<Rightarrow> take (sizeof_msg - 1) (c_str w)
             | None \<Rightarrow> ''Unknown exception was raised.''))]"
    by (cases e) (simp_all add: call_ctor_throws [OF ctor] unknown_text_fits del: One_nat_def)
next
  assume "PGInterface_ctor env fcinfo = Inr db \<and>
    inner_block env f db fcinfo = (Inl non_std, db')"
  then have c: "PGInterface_ctor env fcinfo = Inr db"
    and b: "inner_block env f db fcinfo = (Inl non_std, db')" by simp_all
  show "how (call env f fcinfo l0) = NonLocal"
    by (simp add: call_non_std [OF c b])
  show "errordata (call env f fcinfo l0) =
        [(ERROR, ERRCODE_INVALID_PARAMETER_VALUE,
          errmsg (format_procedure env (fn_oid fcinfo)) ''Unknown exception was raised.'')]"
    by (simp add: call_non_std [OF c b] unknown_text_fits del: One_nat_def)
qed

theorem C5_other_failures_are_invalid_argument_witness:
  "errordata (call example_env_bad_context example_add example_fcinfo example_locals) =
     [(ERROR, ERRCODE_INVALID_PARAMETER_VALUE,
       ''Function '' @ [CHR 0x22] @ ''add'' @ [CHR 0x22] @ '': no call state'')] \<and>
   how (call example_env example_throw_int example_fcinfo example_locals) = NonLocal \<and>
   errordata (call example_env example_throw_int example_fcinfo example_locals) =
     [(ERROR, ERRCODE_INVALID_PARAMETER_VALUE,
       ''Function '' @ [CHR 0x22] @ ''add'' @ [CHR 0x22] @ '': Unknown exception was raised.'')]"
proof -
  have ctor: "PGInterface_ctor example_env_bad_context example_fcinfo =
      Inl (std_exception ''no call state'')"
    by (simp add: example_env_bad_context_def)
  have name: "format_procedure example_env_bad_context (fn_oid example_fcinfo) = ''add''"
    by (simp add: example_env_bad_context_def example_env_def)
  have a: "errordata (call example_env_bad_context example_add example_fcinfo example_locals) =
     [(ERROR, ERRCODE_INVALID_PARAMETER_VALUE,
       ''Function '' @ [CHR 0x22] @ ''add'' @ [CHR 0x22] @ '': no call state'')]"
    using C5_other_failures_are_invalid_argument
      [of example_env_bad_context example_fcinfo "std_exception ''no call state''"
          example_add example_locals]
    by (simp add: ctor name errmsg_def c_str_def NUL_def sizeof_msg_def)
  have b: "how (call example_env example_throw_int example_fcinfo example_locals) = NonLocal \<and>
   errordata (call example_env example_throw_int example_fcinfo example_locals) =
     [(ERROR, ERRCODE_INVALID_PARAMETER_VALUE,
       ''Function '' @ [CHR 0x22] @ ''add'' @ [CHR 0x22] @ '': Unknown exception was raised.'')]"
    using C5_other_failures_are_invalid_argument
      [of example_env example_fcinfo non_std example_throw_int example_locals
          "\<lparr>lastError = None\<rparr>" "\<lparr>lastError = None\<rparr>"]
    by (simp add: example_ctor ib_throw_int example_name errmsg_def c_str_def NUL_def)
  from a b show ?thesis by simp
qed

text \<open>
  Claim C6. An invocation that leaves by the non-local exit has handed the host
  exactly one report: severity \<^verbatim>\<open>ERROR\<close>, the code held in
  \<^verbatim>\<open>sqlerrcode\<close>, and the message \<open>Function "name": text\<close>, where
  \<open>name\<close> is what \<^verbatim>\<open>format_procedure\<close> gives for the invoked
  function and \<open>text\<close> is the string in the buffer. An invocation that returns
  has handed the host no report.
\<close>

theorem C6_one_error_record_in_the_format:
  "(how (call env f fcinfo l0) = NonLocal \<longrightarrow>
      errordata (call env f fcinfo l0) =
        [(ERROR, sqlerrcode (frame (call env f fcinfo l0)),
          ''Function '' @ [CHR 0x22] @ c_str (format_procedure env (fn_oid fcinfo)) @
          [CHR 0x22] @ '': '' @ c_str (msg (frame (call env f fcinfo l0))))]) \<and>
   (how (call env f fcinfo l0) \<noteq> NonLocal \<longrightarrow> errordata (call env f fcinfo l0) = [])"
proof (cases "outer_try env f fcinfo l0")
  case (Return d fcinfo')
  then show ?thesis by (simp add: call_Return)
next
  case (Next l)
  then show ?thesis by (simp add: call_Next errmsg_def)
qed

theorem C6_one_error_record_in_the_format_witness:
  "how (call example_env example_throw_int example_fcinfo example_locals) = NonLocal \<and>
   errordata (call example_env example_throw_int example_fcinfo example_locals) =
     [(ERROR, sqlerrcode (frame (call example_env example_throw_int example_fcinfo example_locals)),
       ''Function '' @ [CHR 0x22] @ ''add'' @ [CHR 0x22] @ '': '' @
       c_str (msg (frame (call example_env example_throw_int example_fcinfo example_locals))))]"
proof -
  have nl: "how (call example_env example_throw_int example_fcinfo example_locals) = NonLocal"
    by (simp add: call_non_std [OF example_ctor ib_throw_int])
  have name: "c_str (format_procedure example_env (fn_oid example_fcinfo)) = ''add''"
    by (simp add: example_name c_str_def NUL_def)
  show ?thesis
    using C6_one_error_record_in_the_format
            [of example_env example_throw_int example_fcinfo example_locals] nl
    unfolding name by blast
qed

text \<open>
  Claim C7. Every invocation ends in one of two ways. Either the constructor of the
  context and the guarded block threw nothing, and the function returns the value
  of the block with no report made; or one of them threw, and the function leaves
  by the non-local exit of \<^verbatim>\<open>ereport\<close> with exactly one report made and
  the host's call state untouched. The \<^verbatim>\<open>PG_RETURN_NULL()\<close> that follows
  \<^verbatim>\<open>ereport\<close> would be a return with a report made: it never happens.
\<close>

theorem C7_return_or_one_report:
  "(\<exists>d fcinfo' db db'.
      PGInterface_ctor env fcinfo = Inr db \<and>
      inner_block env f db fcinfo = (Inr (d, fcinfo'), db') \<and>
      call env f fcinfo l0 =
        \<lparr>how = Normal d, fcinfo_out = fcinfo', errordata = [], frame = l0\<rparr>) \<or>
   (((\<exists>e. PGInterface_ctor env fcinfo = Inl e) \<or>
     (\<exists>db e db'. PGInterface_ctor env fcinfo = Inr db \<and>
        inner_block env f db fcinfo = (Inl e, db'))) \<and>
    how (call env f fcinfo l0) = NonLocal \<and>
    fcinfo_out (call env f fcinfo l0) = fcinfo \<and>
    length (errordata (call env f fcinfo l0)) = 1)"
proof (cases "outer_try env f fcinfo l0")
  case (Return d fcinfo')
  from outer_try_Return_origin [OF Return] call_Return [OF Return]
  show ?thesis by blast
next
  case (Next l)
  have "how (call env f fcinfo l0) = NonLocal \<and>
    fcinfo_out (call env f fcinfo l0) = fcinfo \<and>
    length (errordata (call env f fcinfo l0)) = 1"
    by (simp add: call_Next [OF Next])
  with outer_try_Next_origin [OF Next] show ?thesis by blast
qed

text \<open>
  Claim C8. The value through which the native function reads its arguments is
  always built with \<^verbatim>\<open>NoDeleter\<close>: two native functions that agree on
  the values built so cannot be told apart by \<^verbatim>\<open>call\<close>. When such a value
  goes away, nothing is freed. In the example the two native functions differ on a
  value that its container owns.
\<close>

theorem C8_argument_is_referenced_not_owned:
  assumes "\<forall>db arg. g db (AnyType (AbstractTypeSPtr arg NoDeleter)) =
                     f db (AnyType (AbstractTypeSPtr arg NoDeleter))"
  shows "call env g fcinfo l0 = call env f fcinfo l0 \<and>
         (\<forall>arg live. destroy (AnyType (AbstractTypeSPtr arg NoDeleter)) live = live)"
proof -
  have "inner_block env g db fcinfo = inner_block env f db fcinfo" for db
    using assms by (simp add: inner_block_def split: sum.splits)
  then have "inner_try env g db fcinfo l0 = inner_try env f db fcinfo l0" for db
    by (simp add: inner_try_def)
  then have "outer_try env g fcinfo l0 = outer_try env f fcinfo l0"
    by (cases "PGInterface_ctor env fcinfo") (simp_all add: outer_try_def)
  then show ?thesis
    by (simp add: call_def)
qed

theorem C8_argument_is_referenced_not_owned_witness:
  "example_sensitive \<lparr>lastError = None\<rparr> (AnyType (AbstractTypeSPtr [1, 2] DefaultDelete)) =
     (Inl non_std, \<lparr>lastError = None\<rparr>) \<and>
   call example_env example_sensitive example_fcinfo example_locals =
     call example_env example_add example_fcinfo example_locals \<and>
   how (call example_env example_add example_fcinfo example_locals) = Normal 3"
proof -
  have "\<forall>db arg. example_sensitive db (AnyType (AbstractTypeSPtr arg NoDeleter)) =
                  example_add db (AnyType (AbstractTypeSPtr arg NoDeleter))"
    by simp
  from C8_argument_is_referenced_not_owned [OF this, of example_env example_fcinfo example_locals]
  show ?thesis
    by (simp add: call_returns [OF example_ctor ib_add])
qed

text \<open>
  Claim C9. An allocation failure thrown by the constructor of the context is
  taken by the first handler of the outer \<^verbatim>\<open>try\<close>: the report
  carries the code for an invalid argument and the text of the exception, not the
  code for exhausted memory.
\<close>

theorem C9_bad_alloc_in_constructor_is_invalid_argument:
  assumes "PGInterface_ctor env fcinfo = Inl (bad_alloc w)"
  shows "how (call env f fcinfo l0) = NonLocal \<and>
         errordata (call env f fcinfo l0) =
           [(ERROR, ERRCODE_INVALID_PARAMETER_VALUE,
             errmsg (format_procedure env (fn_oid fcinfo))
               (take (sizeof_msg - 1) (c_str w)))] \<and>
         sqlerrcode (frame (call env f fcinfo l0)) \<noteq> ERRCODE_OUT_OF_MEMORY"
  by (simp add: call_ctor_throws [OF assms] del: One_nat_def)

theorem C9_bad_alloc_in_constructor_is_invalid_argument_witness:
  "how (call example_env_no_context example_add example_fcinfo example_locals) = NonLocal \<and>
   errordata (call example_env_no_context example_add example_fcinfo example_locals) =
     [(ERROR, ERRCODE_INVALID_PARAMETER_VALUE,
       ''Function '' @ [CHR 0x22] @ ''add'' @ [CHR 0x22] @ '': std::bad_alloc'')] \<and>
   sqlerrcode (frame (call example_env_no_context example_add example_fcinfo example_locals))
     \<noteq> ERRCODE_OUT_OF_MEMORY"
proof -
  have ctor: "PGInterface_ctor example_env_no_context example_fcinfo =
      Inl (bad_alloc ''std::bad_alloc'')"
    by (simp add: example_env_no_context_def)
  have name: "format_procedure example_env_no_context (fn_oid example_fcinfo) = ''add''"
    by (simp add: example_env_no_context_def example_env_def)
  show ?thesis
    using C9_bad_alloc_in_constructor_is_invalid_argument
            [OF ctor, of example_add example_locals]
    by (simp add: name errmsg_def c_str_def NUL_def sizeof_msg_def)
qed

text \<open>
  Claim C10. An invocation reported with the code for exhausted memory carries the
  fixed text of the \<^verbatim>\<open>bad_alloc\<close> handler (cut by the buffer), whatever the
  diagnostic slot holds: the handler does not read the slot. The first part is the
  path itself, with any context \<open>db'\<close> left by the native function; the second
  says that no other path reports this code. In the example the native function
  writes \<open>M1\<close> into the slot before it runs out of memory.
\<close>

theorem C10_out_of_memory_ignores_diagnostic:
  "(PGInterface_ctor env fcinfo = Inr db \<and>
    inner_block env f db fcinfo = (Inl (bad_alloc w), db') \<longrightarrow>
      errordata (call env f fcinfo l0) =
        [(ERROR, ERRCODE_OUT_OF_MEMORY,
          errmsg (format_procedure env (fn_oid fcinfo))
            (take (sizeof_msg - 1) (c_str (bad_alloc_text (PACKAGE_NAME env)))))]) \<and>
   (\<forall>lev m. errordata (call env f fcinfo l0) = [(lev, ERRCODE_OUT_OF_MEMORY, m)] \<longrightarrow>
      m = errmsg (format_procedure env (fn_oid fcinfo))
            (take (sizeof_msg - 1) (c_str (bad_alloc_text (PACKAGE_NAME env)))))"
proof (intro conjI impI allI)
  assume "PGInterface_ctor env fcinfo = Inr db \<and>
    inner_block env f db fcinfo = (Inl (bad_alloc w), db')"
  then show "errordata (call env f fcinfo l0) =
        [(ERROR, ERRCODE_OUT_OF_MEMORY,
          errmsg (format_procedure env (fn_oid fcinfo))
            (take (sizeof_msg - 1) (c_str (bad_alloc_text (PACKAGE_NAME env)))))]"
    by (simp add: call_bad_alloc del: One_nat_def)
next
  fix lev m
  assume "errordata (call env f fcinfo l0) = [(lev, ERRCODE_OUT_OF_MEMORY, m)]"
  then show "m = errmsg (format_procedure env (fn_oid fcinfo))
            (take (sizeof_msg - 1) (c_str (bad_alloc_text (PACKAGE_NAME env))))"
    using errordata_cases [of env f fcinfo l0] by (elim disjE exE) simp_all
qed

theorem C10_out_of_memory_ignores_diagnostic_witness:
  "lastError (snd (inner_block example_env example_exhausted \<lparr>lastError = None\<rparr> example_fcinfo))
     = Some ''M1'' \<and>
   errordata (call example_env example_exhausted example_fcinfo example_locals) =
     [(ERROR, ERRCODE_OUT_OF_MEMORY,
       ''Function '' @ [CHR 0x22] @ ''add'' @ [CHR 0x22] @
       '': Memory allocation failed. Typically, this indicates that MADlib limits the available memory to less than what is needed for this input.'')]"
proof -
  have "errordata (call example_env example_exhausted example_fcinfo example_locals) =
      [(ERROR, ERRCODE_OUT_OF_MEMORY,
        errmsg (format_procedure example_env (fn_oid example_fcinfo))
          (take (sizeof_msg - 1) (c_str (bad_alloc_text (PACKAGE_NAME example_env)))))]"
    using C10_out_of_memory_ignores_diagnostic
            [of example_env example_fcinfo "\<lparr>lastError = None\<rparr>" example_exhausted
                "''std::bad_alloc''" "\<lparr>lastError = Some ''M1''\<rparr>" example_locals]
          example_ctor ib_exhausted
    by blast
  then have "errordata (call example_env example_exhausted example_fcinfo example_locals) =
      [(ERROR, ERRCODE_OUT_OF_MEMORY, errmsg ''add''
         ''Memory allocation failed. Typically, this indicates that MADlib limits the available memory to less than what is needed for this input.'')]"
    unfolding example_name example_bad_alloc_text .
  then show ?thesis
    by (simp add: ib_exhausted errmsg_def c_str_def NUL_def)
qed

end
